theory Spec2Isabelle
  imports Complex_Main "HOL-Library.Word"
begin

unbundle bit_operations_syntax

section \<open>The light decoder: \<^verbatim>\<open>src/deepdive_data_light.c\<close>\<close>

text \<open>
  The per-tracker light capture data. The header that declares the structs is not part of
  the sources, so the records hold the fields the code of \<^verbatim>\<open>handle_sweep\<close> reads and
  writes. The per-sensor arrays \<^verbatim>\<open>sweep_len\<close> and \<^verbatim>\<open>sweep_time\<close> are lists (their
  length is the size of the C array, \<^verbatim>\<open>MAX_NUM_SENSORS\<close> in \<^verbatim>\<open>handle_measurements\<close>,
  which walks them with \<^verbatim>\<open>i < MAX_NUM_SENSORS\<close>); the per-lighthouse arrays have
  \<^verbatim>\<open>MAX_NUM_LIGHTHOUSES\<close> entries.
\<close>

record lightcap_per_sweep =
  activeLighthouse :: int
  activeSweepStartTime :: int
  activeAcode :: int
  lh_acode :: "int list"
  lh_start_time :: "int list"

record lightcaps_sweep_data =
  sweep_len :: "16 word list"
  sweep_time :: "32 word list"

record lightcap_data =
  per_sweep :: lightcap_per_sweep
  sweep :: lightcaps_sweep_data

text \<open>
  A write past the end of a C array is undefined behaviour; the model makes it a value:
  \<open>OutOfBounds i n\<close> is an access at index \<open>i\<close> of an array of \<open>n\<close> elements.
\<close>

datatype fault = OutOfBounds nat nat

text \<open>One round of the loop of \<^verbatim>\<open>handle_sweep\<close> over the lighthouses.\<close>

definition select_lighthouse :: "lightcap_per_sweep \<Rightarrow> nat \<Rightarrow> lightcap_per_sweep" where
  "select_lighthouse ps i =
     (let acode = lh_acode ps ! i
      in if 0 \<le> acode \<and> \<not> bit acode 2
         then ps\<lparr>activeLighthouse := int i,
                 activeSweepStartTime := lh_start_time ps ! i,
                 activeAcode := acode\<rparr>
         else ps)"

text \<open>
  \<^verbatim>\<open>handle_sweep(tracker, timecode, sensor, length)\<close>, on the tracker's light capture
  data. The first argument is the constant \<^verbatim>\<open>MAX_NUM_LIGHTHOUSES\<close>.
\<close>

definition handle_sweep ::
  "nat \<Rightarrow> lightcap_data \<Rightarrow> 32 word \<Rightarrow> 16 word \<Rightarrow> 16 word \<Rightarrow> fault + lightcap_data" where
  "handle_sweep max_num_lighthouses lcd timecode sensor len =
     (let ps0 = (per_sweep lcd)\<lparr>activeLighthouse := - 1,
                                activeSweepStartTime := 0,
                                activeAcode := 0\<rparr>;
          ps = foldl select_lighthouse ps0 [0..<max_num_lighthouses];
          lcd1 = lcd\<lparr>per_sweep := ps\<rparr>;
          sw = sweep lcd1;
          s = unat sensor
      in if activeLighthouse ps < 0 then Inr lcd1
         else if length (sweep_len sw) \<le> s then Inl (OutOfBounds s (length (sweep_len sw)))
         else if sweep_len sw ! s < len
         then (if length (sweep_time sw) \<le> s
               then Inl (OutOfBounds s (length (sweep_time sw)))
               else Inr (lcd1\<lparr>sweep := sw\<lparr>sweep_len := (sweep_len sw)[s := len],
                                              sweep_time := (sweep_time sw)[s := timecode]\<rparr>\<rparr>))
         else Inr lcd1)"

text \<open>
  \<^verbatim>\<open>deepdive_data_light\<close>: the entry guard and the dispatch. \<^verbatim>\<open>handle_sync\<close> never
  indexes an array with \<open>sensor\<close>, so its effect is left out and the outcome only records
  that it was called. The first two arguments are the constants \<^verbatim>\<open>MAX_NUM_SENSORS\<close> and
  \<^verbatim>\<open>MAX_NUM_LIGHTHOUSES\<close>.
\<close>

datatype outcome = Rejected | Sync | Sweep "fault + lightcap_data"

definition deepdive_data_light ::
  "nat \<Rightarrow> nat \<Rightarrow> lightcap_data \<Rightarrow> 32 word \<Rightarrow> 16 word \<Rightarrow> 16 word \<Rightarrow> outcome" where
  "deepdive_data_light max_num_sensors max_num_lighthouses lcd timecode sensor len =
     (if max_num_sensors < unat sensor then Rejected
      else if 6750 < unat len then Rejected
      else if 2750 < unat len then Sync
      else Sweep (handle_sweep max_num_lighthouses lcd timecode sensor len))"

text \<open>
  A tracker with 32 sensors and two lighthouses, the first of which has a valid acode
  whose skip bit is clear; nothing has been captured in this sweep yet.
\<close>

definition lcd32 :: lightcap_data where
  "lcd32 = \<lparr>per_sweep = \<lparr>activeLighthouse = - 1, activeSweepStartTime = 0, activeAcode = 0,
                          lh_acode = [0, - 1], lh_start_time = [1000, 0]\<rparr>,
            sweep = \<lparr>sweep_len = replicate 32 0, sweep_time = replicate 32 0\<rparr>\<rparr>"

section \<open>The calibration node: \<^verbatim>\<open>ros/src/deepdive_calibration.cc\<close>\<close>

subsection \<open>Data\<close>

text \<open>
  A \<^verbatim>\<open>double\<close> is a real number and a \<^verbatim>\<open>ros::Time\<close> is its value in seconds
  (\<^verbatim>\<open>toSec\<close> and the constructor from a \<^verbatim>\<open>double\<close> are the identity). The message
  and map types come from headers that are not part of the sources; the records hold the
  fields the node uses. A six-parameter transform \<^verbatim>\<open>double[6]\<close> is a list of reals.
\<close>

record Pulse =
  sensor :: "8 word"
  angle :: real
  duration :: real

record Light =
  frame_id :: string
  lighthouse :: string
  axis :: "8 word"
  pulses :: "Pulse list"

record Params =
  PARAM_PHASE :: real
  PARAM_TILT :: real
  PARAM_CURVE :: real
  PARAM_GIB_MAG :: real
  PARAM_GIB_PHASE :: real

record Lighthouse =
  vTl :: "real list"
  params :: "nat \<Rightarrow> Params"
  lh_ready :: bool

record Tracker =
  sensors :: "real list"
  vTt :: "(real \<times> real list) list"
  tr_ready :: bool

datatype log_entry = Info string | Warn string

text \<open>
  The globals of the node that change while it runs, together with what it has sent to its
  collaborators: the log, the transform sets handed to \<^verbatim>\<open>SendTransforms\<close> and
  \<^verbatim>\<open>WriteConfig\<close>, the (lighthouse, tracker) paths published, and the number of
  restarts of the inactivity timer. A \<^verbatim>\<open>std::map\<close> is an association list in
  iteration order, that is, sorted by key.
\<close>

record node =
  recording :: bool
  measurements :: "(real \<times> Light) list"
  lighthouses :: "(string \<times> Lighthouse) list"
  trackers :: "(string \<times> Tracker) list"
  log :: "log_entry list"
  sent :: "(string \<times> Lighthouse) list list"
  written :: "(string \<times> Lighthouse) list list"
  paths :: "(string \<times> string) list"
  timer_restarts :: nat

text \<open>The globals read from the parameter server at start-up, and \<^verbatim>\<open>NUM_SENSORS\<close>.\<close>

record config =
  thresh_count :: "32 word"
  thresh_angle :: real
  thresh_duration :: real
  res :: real
  correct :: bool
  visualize :: bool
  NUM_SENSORS :: nat

text \<open>The response of the trigger service.\<close>

record Response =
  success :: bool
  message :: string

subsection \<open>\<^verbatim>\<open>std::map::operator[]\<close>\<close>

text \<open>
  \<open>index_upd k d f m\<close> is \<^verbatim>\<open>m[k] = f(m[k])\<close>: the entry of \<open>k\<close> is created with the
  default value \<open>d\<close> when it is missing, at its place in the order of the keys.
\<close>

fun index_upd :: "'k::linorder \<Rightarrow> 'v \<Rightarrow> ('v \<Rightarrow> 'v) \<Rightarrow> ('k \<times> 'v) list \<Rightarrow> ('k \<times> 'v) list" where
  "index_upd k d f [] = [(k, f d)]"
| "index_upd k d f ((k', v) # m) =
     (if k < k' then (k, f d) # (k', v) # m
      else if k = k' then (k, f v) # m
      else (k', v) # index_upd k d f m)"

subsection \<open>\<^verbatim>\<open>LightCallback\<close>\<close>

text \<open>The test of the erase loop: the pulse is deleted when it holds.\<close>

definition rejected :: "config \<Rightarrow> Pulse \<Rightarrow> bool" where
  "rejected cfg p \<longleftrightarrow>
     angle p > thresh_angle cfg / 57.2958 \<or> duration p < thresh_duration cfg / 1000000"

text \<open>
  The loop \<^verbatim>\<open>while (it-- > data.pulses.begin())\<close>, with \<open>i\<close> the position of \<open>it\<close>
  before the test: it stops at position 0, and otherwise looks at the element at
  \<open>i - 1\<close>. \<^verbatim>\<open>erase\<close> returns the position of the erased element.
\<close>

fun erase_loop :: "config \<Rightarrow> nat \<Rightarrow> Pulse list \<Rightarrow> nat \<Rightarrow> Pulse list \<times> nat" where
  "erase_loop cfg 0 ps deleted = (ps, deleted)"
| "erase_loop cfg (Suc i) ps deleted =
     (if rejected cfg (ps ! i)
      then erase_loop cfg i (take i ps @ drop (Suc i) ps) (Suc deleted)
      else erase_loop cfg i ps deleted)"

text \<open>
  \<^verbatim>\<open>LightCallback(msg)\<close> at the time \<open>now\<close>. In
  \<^verbatim>\<open>data.pulses.size() < thresh_count_\<close> the \<^verbatim>\<open>int\<close> is converted to the unsigned
  64-bit \<^verbatim>\<open>size_t\<close>.
\<close>

definition LightCallback :: "config \<Rightarrow> real \<Rightarrow> Light \<Rightarrow> node \<Rightarrow> node" where
  "LightCallback cfg now msg st0 =
     (let st = st0\<lparr>timer_restarts := Suc (timer_restarts st0)\<rparr>
      in case (recording st, map_of (trackers st) (frame_id msg),
               map_of (lighthouses st) (lighthouse msg)) of
           (True, Some tr, Some lh) \<Rightarrow>
             if \<not> tr_ready tr \<or> \<not> lh_ready lh then st
             else let data = msg\<lparr>pulses := fst (erase_loop cfg (length (pulses msg)) (pulses msg) 0)\<rparr>
                  in if int (length (pulses data)) < sint (thresh_count cfg) mod 2 ^ 64 then st
                     else st\<lparr>measurements := index_upd now data (\<lambda>_. data) (measurements st)\<rparr>
         | _ \<Rightarrow> st)"

subsection \<open>\<^verbatim>\<open>Mean\<close> and the bundling of \<^verbatim>\<open>Solve\<close>\<close>

text \<open>\<^verbatim>\<open>Mean(v, d)\<close>: \<open>None\<close> is the return value \<^verbatim>\<open>false\<close>, with \<open>d\<close> untouched.\<close>

definition Mean :: "real list \<Rightarrow> real option" where
  "Mean v = (if v = [] then None else Some (foldl (+) 0 v / real (length v)))"

text \<open>
  C's \<^verbatim>\<open>round\<close>: to the nearest integer, halfway cases away from zero. The time of
  a bin is \<^verbatim>\<open>ros::Time(round(t / res_) * res_)\<close>. With \<^verbatim>\<open>res_\<close> zero the source
  divides by zero and hands a value that is not a number to the constructor of
  \<^verbatim>\<open>ros::Time\<close>, which throws; \<open>discretize\<close> stands for the source at a positive
  resolution only, and what is proved of a call that reaches the bundling assumes one.
\<close>

definition c_round :: "real \<Rightarrow> real" where
  "c_round x = (if 0 \<le> x then of_int \<lfloor>x + 1 / 2\<rfloor> else of_int \<lceil>x - 1 / 2\<rceil>)"

definition discretize :: "real \<Rightarrow> real \<Rightarrow> real" where
  "discretize r t = c_round (t / r) * r"

text \<open>
  The samples of one time bin, by sensor and axis, and the bins of one (tracker,
  lighthouse) pair by time. Reading a sensor or an axis that has no samples gives the
  empty vector, which is what \<^verbatim>\<open>operator[]\<close> creates in the source.
\<close>

type_synonym Samples = "8 word \<Rightarrow> 8 word \<Rightarrow> real list"
type_synonym Bundle = "(real \<times> Samples) list"

definition push_back :: "8 word \<Rightarrow> 8 word \<Rightarrow> real \<Rightarrow> Samples \<Rightarrow> Samples" where
  "push_back s a x f = f(s := (f s)(a := f s a @ [x]))"

text \<open>\<^verbatim>\<open>bundle[tserial][lserial][t][pt->sensor][a].push_back(pt->angle)\<close>\<close>

definition bundle_pulse ::
  "string \<Rightarrow> string \<Rightarrow> real \<Rightarrow> 8 word \<Rightarrow> (string \<Rightarrow> string \<Rightarrow> Bundle) \<Rightarrow> Pulse
   \<Rightarrow> (string \<Rightarrow> string \<Rightarrow> Bundle)" where
  "bundle_pulse tserial lserial t a bundle pt =
     bundle(tserial := (bundle tserial)(lserial :=
       index_upd t (\<lambda>_ _. []) (push_back (sensor pt) a (angle pt)) (bundle tserial lserial)))"

definition bundle_measurement ::
  "real \<Rightarrow> (string \<Rightarrow> string \<Rightarrow> Bundle) \<Rightarrow> real \<times> Light \<Rightarrow> (string \<Rightarrow> string \<Rightarrow> Bundle)" where
  "bundle_measurement r bundle mt =
     foldl (bundle_pulse (frame_id (snd mt)) (lighthouse (snd mt)) (discretize r (fst mt))
              (axis (snd mt)))
       bundle (pulses (snd mt))"

definition bundle_measurements :: "real \<Rightarrow> (real \<times> Light) list \<Rightarrow> (string \<Rightarrow> string \<Rightarrow> Bundle)" where
  "bundle_measurements r ms = foldl (bundle_measurement r) (\<lambda>_ _. []) ms"

text \<open>The samples of a bin, empty when the bin does not exist.\<close>

definition samples_at :: "Bundle \<Rightarrow> real \<Rightarrow> 8 word \<Rightarrow> 8 word \<Rightarrow> real list" where
  "samples_at b t s a = (case map_of b t of None \<Rightarrow> [] | Some f \<Rightarrow> f s a)"

subsection \<open>The pose bootstrap of \<^verbatim>\<open>Solve\<close>\<close>

text \<open>
  One round of the loop \<^verbatim>\<open>for (uint8_t a = 0; a < 2; a++)\<close> that corrects the two mean
  angles in place, one statement of the source per line.
\<close>

definition correct_axis :: "Lighthouse \<Rightarrow> real list \<Rightarrow> nat \<Rightarrow> real list" where
  "correct_axis lh angles a =
     (let angles1 = angles[a := angles ! a - PARAM_PHASE (params lh a)];
          angles2 = angles1[a := angles1 ! a - PARAM_TILT (params lh a) * angles1 ! (1 - a)];
          angles3 = angles2[a := angles2 ! a
                      - PARAM_CURVE (params lh a) * angles2 ! (1 - a) * angles2 ! (1 - a)];
          angles4 = angles3[a := angles3 ! a
                      - PARAM_GIB_MAG (params lh a)
                        * cos (angles3 ! (1 - a) + PARAM_GIB_PHASE (params lh a))]
      in angles4)"

definition corrected :: "Lighthouse \<Rightarrow> real list \<Rightarrow> real list" where
  "corrected lh angles = foldl (correct_axis lh) angles [0, 1]"

text \<open>The principal distance \<open>z\<close> of the synthetic image plane.\<close>

definition principal_distance :: real where
  "principal_distance = 1 / (2 * tan (2.0944 / 2))"

type_synonym vec3 = "real \<times> real \<times> real"

text \<open>
  The body of the loop over the sensors: the object point and the image point of sensor
  \<open>s\<close>, or \<open>None\<close> for \<^verbatim>\<open>continue\<close>.
\<close>

definition correspondence ::
  "config \<Rightarrow> Lighthouse \<Rightarrow> Tracker \<Rightarrow> Samples \<Rightarrow> 8 word \<Rightarrow> (vec3 \<times> real \<times> real) option" where
  "correspondence cfg lh tr f s =
     (case (Mean (f s 0), Mean (f s 1)) of
        (Some m0, Some m1) \<Rightarrow>
          (let angles = (if correct cfg then corrected lh [m0, m1] else [m0, m1])
           in Some ((sensors tr ! (unat s * 6 + 0), sensors tr ! (unat s * 6 + 1),
                     sensors tr ! (unat s * 6 + 2)),
                    (principal_distance * tan (angles ! 0),
                     principal_distance * tan (angles ! 1))))
      | _ \<Rightarrow> None)"

text \<open>
  The loop \<^verbatim>\<open>for (uint8_t s = 0; s < NUM_SENSORS; s++)\<close>; \<^verbatim>\<open>NUM_SENSORS\<close> is a
  constant below 256.
\<close>

definition correspondences ::
  "config \<Rightarrow> Lighthouse \<Rightarrow> Tracker \<Rightarrow> Samples \<Rightarrow> (vec3 \<times> real \<times> real) list" where
  "correspondences cfg lh tr f =
     List.map_filter (correspondence cfg lh tr f) (map of_nat [0..<NUM_SENSORS cfg])"

text \<open>A residual block of the global problem: the lighthouse whose transform is the free
  parameter block, and the two constant poses.\<close>

record ResidualBlock =
  rb_param :: string
  rb_master :: "real list"
  rb_slave :: "real list"

text \<open>
  The libraries the node calls. \<^verbatim>\<open>cv::solvePnP\<close> takes the object points, the image
  points and the focal length, and returns the rotation vector and the translation, or
  \<open>None\<close> for \<^verbatim>\<open>false\<close>. \<open>angle_axis\<close> is \<^verbatim>\<open>cv::Rodrigues\<close> followed by the
  conversion to \<^verbatim>\<open>Eigen::AngleAxisd\<close>, giving angle times axis. \<^verbatim>\<open>ceres::Solve\<close>
  takes the residual blocks and the lighthouses that hold the parameter blocks, and
  returns \<^verbatim>\<open>summary.IsSolutionUsable()\<close> and the final value of the parameter block
  of each lighthouse.
\<close>

record ext =
  solvePnP :: "vec3 list \<Rightarrow> (real \<times> real) list \<Rightarrow> real \<Rightarrow> (vec3 \<times> vec3) option"
  angle_axis :: "vec3 \<Rightarrow> vec3"
  ceres_Solve :: "ResidualBlock list \<Rightarrow> (string \<times> Lighthouse) list \<Rightarrow> bool \<times> (string \<Rightarrow> real list)"

text \<open>The body of the loop over the time epochs: the pose of the epoch, if it gets one.\<close>

definition epoch_pose :: "ext \<Rightarrow> config \<Rightarrow> Lighthouse \<Rightarrow> Tracker \<Rightarrow> Samples \<Rightarrow> real list option" where
  "epoch_pose e cfg lh tr f =
     (let cs = correspondences cfg lh tr f
      in if 3 < length cs
         then (case solvePnP e (map fst cs) (map snd cs) principal_distance of
                 Some (R, T) \<Rightarrow>
                   (case (T, angle_axis e R) of
                      ((t0, t1, t2), (r0, r1, r2)) \<Rightarrow> Some [t0, t1, t2, r0, r1, r2])
               | None \<Rightarrow> None)
         else None)"

text \<open>\<^verbatim>\<open>poses[tracker][time][lighthouse]\<close>\<close>

type_synonym Poses = "string \<Rightarrow> (real \<times> (string \<Rightarrow> real list option)) list"

definition pnp_epoch ::
  "ext \<Rightarrow> config \<Rightarrow> string \<times> Lighthouse \<Rightarrow> string \<times> Tracker \<Rightarrow> Poses \<times> 32 word
   \<Rightarrow> real \<times> Samples \<Rightarrow> Poses \<times> 32 word" where
  "pnp_epoch e cfg lt tt acc bt =
     (case epoch_pose e cfg (snd lt) (snd tt) (snd bt) of
        None \<Rightarrow> acc
      | Some p \<Rightarrow>
          ((fst acc)(fst tt := index_upd (fst bt) (\<lambda>_. None) (\<lambda>m. m(fst lt \<mapsto> p)) (fst acc (fst tt))),
           snd acc + 1))"

text \<open>The loop over the trackers: \<^verbatim>\<open>vTt\<close> is cleared, then the epochs are walked.\<close>

definition pnp_tracker ::
  "ext \<Rightarrow> config \<Rightarrow> (string \<Rightarrow> string \<Rightarrow> Bundle) \<Rightarrow> string \<times> Lighthouse
   \<Rightarrow> (string \<times> Tracker) list \<times> Poses \<times> 32 word \<Rightarrow> string \<times> Tracker
   \<Rightarrow> (string \<times> Tracker) list \<times> Poses \<times> 32 word" where
  "pnp_tracker e cfg bundle lt acc tt =
     (let tt' = (fst tt, (snd tt)\<lparr>vTt := []\<rparr>)
      in (fst acc @ [tt'],
          foldl (pnp_epoch e cfg lt tt') (snd acc) (bundle (fst tt) (fst lt))))"

definition pnp_lighthouse ::
  "ext \<Rightarrow> config \<Rightarrow> (string \<Rightarrow> string \<Rightarrow> Bundle) \<Rightarrow> (string \<times> Tracker) list \<times> Poses \<times> 32 word
   \<Rightarrow> string \<times> Lighthouse \<Rightarrow> (string \<times> Tracker) list \<times> Poses \<times> 32 word" where
  "pnp_lighthouse e cfg bundle acc lt =
     foldl (pnp_tracker e cfg bundle lt) ([], snd acc) (fst acc)"

definition pnp_stage ::
  "ext \<Rightarrow> config \<Rightarrow> (string \<Rightarrow> string \<Rightarrow> Bundle) \<Rightarrow> (string \<times> Lighthouse) list
   \<Rightarrow> (string \<times> Tracker) list \<Rightarrow> (string \<times> Tracker) list \<times> Poses \<times> 32 word" where
  "pnp_stage e cfg bundle lhs trs =
     foldl (pnp_lighthouse e cfg bundle) (trs, (\<lambda>_. []), 0) lhs"

text \<open>The pose of a tracker at a time in a lighthouse frame, if there is one.\<close>

definition pose_at :: "Poses \<Rightarrow> string \<Rightarrow> real \<Rightarrow> string \<Rightarrow> real list option" where
  "pose_at poses tt t lt = (case map_of (poses tt) t of None \<Rightarrow> None | Some m \<Rightarrow> m lt)"

subsection \<open>The global problem of \<^verbatim>\<open>Solve\<close>\<close>

text \<open>The special case for the master: \<^verbatim>\<open>for (i = 0; i < 6; i++) vTl[0] = 0\<close>.\<close>

definition reset_master :: "Lighthouse \<Rightarrow> Lighthouse" where
  "reset_master lh = lh\<lparr>vTl := foldl (\<lambda>v i. v[0 := 0]) (vTl lh) [0..<6]\<rparr>"

text \<open>The residual block of one epoch of a tracker, for the slave \<open>lt\<close> and the master \<open>lm\<close>.\<close>

definition residual_block ::
  "string \<Rightarrow> string \<Rightarrow> real \<times> (string \<Rightarrow> real list option) \<Rightarrow> ResidualBlock option" where
  "residual_block lm lt pt =
     (case (snd pt lt, snd pt lm) of
        (Some ps, Some pm) \<Rightarrow> Some \<lparr>rb_param = lt, rb_master = pm, rb_slave = ps\<rparr>
      | _ \<Rightarrow> None)"

definition slave_blocks ::
  "string \<Rightarrow> (string \<times> Tracker) list \<Rightarrow> Poses \<Rightarrow> string \<Rightarrow> ResidualBlock list" where
  "slave_blocks lm trs poses lt =
     concat (map (\<lambda>tt. List.map_filter (residual_block lm lt) (poses (fst tt))) trs)"

text \<open>
  The loop that adds the residual blocks: the first lighthouse is the master and is reset,
  every other one is a slave. The result is the lighthouses and the blocks of the problem.
\<close>

definition build_problem ::
  "(string \<times> Lighthouse) list \<Rightarrow> (string \<times> Tracker) list \<Rightarrow> Poses
   \<Rightarrow> (string \<times> Lighthouse) list \<times> ResidualBlock list" where
  "build_problem lhs trs poses =
     (case lhs of
        [] \<Rightarrow> ([], [])
      | lm # slaves \<Rightarrow>
          ((fst lm, reset_master (snd lm)) # slaves,
           concat (map (\<lambda>lt. slave_blocks (fst lm) trs poses (fst lt)) slaves)))"

text \<open>
  The solver writes its result into the parameter blocks of the problem, and into no other
  memory.
\<close>

definition write_back ::
  "ResidualBlock list \<Rightarrow> (string \<Rightarrow> real list) \<Rightarrow> (string \<times> Lighthouse) list
   \<Rightarrow> (string \<times> Lighthouse) list" where
  "write_back blocks sol lhs =
     map (\<lambda>lt. if fst lt \<in> rb_param ` set blocks then (fst lt, (snd lt)\<lparr>vTl := sol (fst lt)\<rparr>)
                else lt) lhs"

subsection \<open>\<^verbatim>\<open>Solve\<close>, \<^verbatim>\<open>TriggerCallback\<close> and \<^verbatim>\<open>TimerCallback\<close>\<close>

text \<open>
  The log keeps the messages of \<^verbatim>\<open>ROS_WARN\<close> and \<^verbatim>\<open>ROS_INFO\<close>; the streamed ones,
  which format numbers, are left out. The block that publishes the trajectories publishes
  one path for each lighthouse and tracker.
\<close>

definition Solve :: "ext \<Rightarrow> config \<Rightarrow> node \<Rightarrow> bool \<times> node" where
  "Solve e cfg st =
     (if measurements st = []
      then (False, st\<lparr>log := log st
              @ [Warn ''Insufficient measurements received, so cannot solve problem.'']\<rparr>)
      else
        let bundle = bundle_measurements (res cfg) (measurements st);
            pnp = pnp_stage e cfg bundle (lighthouses st) (trackers st);
            trs = fst pnp;
            problem = build_problem (lighthouses st) trs (fst (snd pnp));
            summary = ceres_Solve e (snd problem) (fst problem);
            lhs = write_back (snd problem) (snd summary) (fst problem);
            st1 = st\<lparr>trackers := trs, lighthouses := lhs,
                     log := log st
                       @ [Info ''Bundling measurements into larger discrete time units.'',
                          Info ''Using P3P to estimate pose sequence in every lighthouse frame.'',
                          Info ''Estimating master -> slave lighthouse transforms.'',
                          Info (if fst summary then ''- Solution found''
                                else ''- Solution not found'')]\<rparr>;
            st2 = st1\<lparr>sent := sent st1 @ [lhs], written := written st1 @ [lhs]\<rparr>;
            st3 = (if visualize cfg
                   then st2\<lparr>paths := paths st2
                          @ concat (map (\<lambda>lt. map (\<lambda>jt. (fst lt, fst jt)) trs) lhs)\<rparr>
                   else st2)
        in (True, st3))"

text \<open>\<^verbatim>\<open>TriggerCallback(req, res)\<close>: the return value, the response and the new state.\<close>

definition TriggerCallback :: "ext \<Rightarrow> config \<Rightarrow> Response \<Rightarrow> node \<Rightarrow> bool \<times> Response \<times> node" where
  "TriggerCallback e cfg res0 st =
     (let res1 = (if \<not> recording st
                  then res0\<lparr>success := True, message := ''Recording started.''\<rparr>
                  else res0);
          r = (if recording st
               then (let s = Solve e cfg st
                     in (res1\<lparr>success := fst s,
                              message := (if fst s then ''Recording stopped. Solution found.''
                                          else ''Recording stopped. Solution not found.'')\<rparr>,
                         (snd s)\<lparr>measurements := []\<rparr>))
               else (res1, st))
      in (True, fst r, (snd r)\<lparr>recording := \<not> recording (snd r)\<rparr>))"

definition TimerCallback :: "ext \<Rightarrow> config \<Rightarrow> node \<Rightarrow> node" where
  "TimerCallback e cfg st =
     snd (snd (TriggerCallback e cfg \<lparr>success = False, message = []\<rparr> st))"

subsection \<open>\<^verbatim>\<open>TransformCost\<close>\<close>

text \<open>
  The functions of \<^verbatim>\<open>ceres/rotation.h\<close> that the cost functor calls belong to the Ceres
  library; they are written here as that header defines them, on exact reals. A
  quaternion \<^verbatim>\<open>T q[4]\<close> is the tuple \<open>(w, x, y, z)\<close>.
\<close>

type_synonym quaternion = "real \<times> real \<times> real \<times> real"

definition atan2 :: "real \<Rightarrow> real \<Rightarrow> real" where
  "atan2 y x =
     (if 0 < x then arctan (y / x)
      else if x < 0 then (if 0 \<le> y then arctan (y / x) + pi else arctan (y / x) - pi)
      else if 0 < y then pi / 2
      else if y < 0 then - pi / 2
      else 0)"

definition AngleAxisToQuaternion :: "vec3 \<Rightarrow> quaternion" where
  "AngleAxisToQuaternion aa =
     (case aa of (a0, a1, a2) \<Rightarrow>
        let theta_squared = a0 * a0 + a1 * a1 + a2 * a2
        in if 0 < theta_squared
           then (let theta = sqrt theta_squared;
                     half_theta = theta * 0.5;
                     k = sin half_theta / theta
                 in (cos half_theta, a0 * k, a1 * k, a2 * k))
           else (1, a0 * 0.5, a1 * 0.5, a2 * 0.5))"

definition QuaternionProduct :: "quaternion \<Rightarrow> quaternion \<Rightarrow> quaternion" where
  "QuaternionProduct z w =
     (case (z, w) of ((z0, z1, z2, z3), (w0, w1, w2, w3)) \<Rightarrow>
        (z0 * w0 - z1 * w1 - z2 * w2 - z3 * w3,
         z0 * w1 + z1 * w0 + z2 * w3 - z3 * w2,
         z0 * w2 - z1 * w3 + z2 * w0 + z3 * w1,
         z0 * w3 + z1 * w2 - z2 * w1 + z3 * w0))"

definition QuaternionToAngleAxis :: "quaternion \<Rightarrow> vec3" where
  "QuaternionToAngleAxis q =
     (case q of (q0, q1, q2, q3) \<Rightarrow>
        let sin_squared_theta = q1 * q1 + q2 * q2 + q3 * q3
        in if 0 < sin_squared_theta
           then (let sin_theta = sqrt sin_squared_theta;
                     cos_theta = q0;
                     two_theta = 2 * (if cos_theta < 0 then atan2 (- sin_theta) (- cos_theta)
                                      else atan2 sin_theta cos_theta);
                     k = two_theta / sin_theta
                 in (q1 * k, q2 * k, q3 * k))
           else (q1 * 2, q2 * 2, q3 * 2))"

text \<open>The conjugate of a quaternion, the inverse of the rotation of a unit quaternion.\<close>

definition conjugate :: "quaternion \<Rightarrow> quaternion" where
  "conjugate q = (case q of (w, x, y, z) \<Rightarrow> (w, - x, - y, - z))"

text \<open>
  \<^verbatim>\<open>TransformCost::operator()\<close>, which always returns \<^verbatim>\<open>true\<close>: the six residuals.
  The arguments are the arrays \<^verbatim>\<open>mTs\<close>, \<^verbatim>\<open>mTt\<close> and \<^verbatim>\<open>sTt\<close> of six numbers.
\<close>

definition TransformCost :: "real list \<Rightarrow> real list \<Rightarrow> real list \<Rightarrow> real list" where
  "TransformCost mTs mTt sTt =
     (let mRt = AngleAxisToQuaternion (mTt ! 3, mTt ! 4, mTt ! 5);
          mRs = AngleAxisToQuaternion (mTs ! 3, mTs ! 4, mTs ! 5);
          sRt = AngleAxisToQuaternion (sTt ! 3, sTt ! 4, sTt ! 5);
          mRt_inv = QuaternionProduct mRs sRt;
          mRt_inv = (case mRt_inv of (i0, i1, i2, i3) \<Rightarrow> (i0, - i1, i2, i3));
          mRt_inv = (case mRt_inv of (i0, i1, i2, i3) \<Rightarrow> (i0, i1, - i2, i3));
          mRt_inv = (case mRt_inv of (i0, i1, i2, i3) \<Rightarrow> (i0, i1, i2, - i3));
          q = QuaternionProduct mRt mRt_inv
      in map (\<lambda>i. mTt ! i - (mTs ! i + sTt ! i)) [0..<3]
         @ (case QuaternionToAngleAxis q of (r3, r4, r5) \<Rightarrow> [r3, r4, r5]))"

text \<open>
  The rotational residual the way the specification words it: the axis-angle vector of
  slave-to-master rotation, then master pose rotation, then the inverse of the slave pose
  rotation.
\<close>

definition spec_rotation_residual :: "real list \<Rightarrow> real list \<Rightarrow> real list \<Rightarrow> real list" where
  "spec_rotation_residual mTs mTt sTt =
     (case QuaternionToAngleAxis
             (QuaternionProduct
                (QuaternionProduct (AngleAxisToQuaternion (mTs ! 3, mTs ! 4, mTs ! 5))
                                   (AngleAxisToQuaternion (mTt ! 3, mTt ! 4, mTt ! 5)))
                (conjugate (AngleAxisToQuaternion (sTt ! 3, sTt ! 4, sTt ! 5)))) of
        (r3, r4, r5) \<Rightarrow> [r3, r4, r5])"

text \<open>
  The corrected angle of axis \<open>a\<close> the way the specification words it, from the angle
  \<open>m0\<close> of axis 0 and the angle \<open>m1\<close> of axis 1: every cross-coupling term is
  evaluated on the angle of the other axis.
\<close>

definition spec_corrected :: "Lighthouse \<Rightarrow> real \<Rightarrow> real \<Rightarrow> nat \<Rightarrow> real" where
  "spec_corrected lh m0 m1 a =
     (let m = [m0, m1]
      in m ! a - PARAM_PHASE (params lh a) - PARAM_TILT (params lh a) * m ! (1 - a)
         - PARAM_CURVE (params lh a) * (m ! (1 - a))\<^sup>2
         - PARAM_GIB_MAG (params lh a) * cos (m ! (1 - a) + PARAM_GIB_PHASE (params lh a)))"

text \<open>
  The angles that fell in a bin, in the words of the specification: the angles of the
  pulses of sensor \<open>s\<close> in the observations of the tracker, the lighthouse and the axis
  whose time is discretized to \<open>t\<close>, in the order of the store.
\<close>

definition bin_angles ::
  "real \<Rightarrow> (real \<times> Light) list \<Rightarrow> string \<Rightarrow> string \<Rightarrow> real \<Rightarrow> 8 word \<Rightarrow> 8 word \<Rightarrow> real list" where
  "bin_angles r ms tserial lserial t s a =
     concat (map (\<lambda>mt. if frame_id (snd mt) = tserial \<and> lighthouse (snd mt) = lserial
                           \<and> discretize r (fst mt) = t \<and> axis (snd mt) = a
                        then map angle (filter (\<lambda>p. sensor p = s) (pulses (snd mt)))
                        else []) ms)"

subsection \<open>Invariants of the loops\<close>

text \<open>The time bins of every pair are in the order of their keys.\<close>

definition bundle_sorted :: "(string \<Rightarrow> string \<Rightarrow> Bundle) \<Rightarrow> bool" where
  "bundle_sorted b \<longleftrightarrow> (\<forall>tt lt. sorted_wrt (<) (map fst (b tt lt)))"

text \<open>Every time bin has a sample.\<close>

definition bundle_populated :: "(string \<Rightarrow> string \<Rightarrow> Bundle) \<Rightarrow> bool" where
  "bundle_populated b \<longleftrightarrow> (\<forall>tt lt t f. (t, f) \<in> set (b tt lt) \<longrightarrow> (\<exists>s a. f s a \<noteq> []))"

text \<open>Every pose comes from a time bin of its tracker and lighthouse, through
  \<open>epoch_pose\<close>.\<close>

definition poses_justified ::
  "ext \<Rightarrow> config \<Rightarrow> (string \<Rightarrow> string \<Rightarrow> Bundle) \<Rightarrow> Poses \<Rightarrow> bool" where
  "poses_justified e cfg bundle poses \<longleftrightarrow>
     (\<forall>tt t m lt p. (t, m) \<in> set (poses tt) \<and> m lt = Some p \<longrightarrow>
        (\<exists>lh tr f. (t, f) \<in> set (bundle tt lt) \<and> epoch_pose e cfg lh tr f = Some p))"

subsection \<open>Example inputs\<close>

definition cfg4 :: config where
  "cfg4 = \<lparr>thresh_count = 4, thresh_angle = 60, thresh_duration = 1, res = 1 / 10,
           correct = False, visualize = True, NUM_SENSORS = 32\<rparr>"

text \<open>A configuration whose minimum count is negative.\<close>

definition cfg_neg :: config where
  "cfg_neg = cfg4\<lparr>thresh_count := - 1\<rparr>"

definition params0 :: Params where
  "params0 = \<lparr>PARAM_PHASE = 0, PARAM_TILT = 0, PARAM_CURVE = 0, PARAM_GIB_MAG = 0,
              PARAM_GIB_PHASE = 0\<rparr>"

definition lhA :: Lighthouse where
  "lhA = \<lparr>vTl = [1, 2, 3, 4, 5, 6], params = (\<lambda>_. params0), lh_ready = True\<rparr>"

definition lhB :: Lighthouse where
  "lhB = \<lparr>vTl = [6, 5, 4, 3, 2, 1], params = (\<lambda>_. params0), lh_ready = True\<rparr>"

definition trT :: Tracker where
  "trT = \<lparr>sensors = replicate 192 0, vTt = [], tr_ready = True\<rparr>"

text \<open>An observation of five pulses: one is at the maximum angle, one is too wide.\<close>

definition light5 :: Light where
  "light5 = \<lparr>frame_id = ''T'', lighthouse = ''A'', axis = 0,
             pulses = [\<lparr>sensor = 0, angle = 1 / 2, duration = 1\<rparr>,
                       \<lparr>sensor = 1, angle = 60 / 57.2958, duration = 1\<rparr>,
                       \<lparr>sensor = 2, angle = 2, duration = 1\<rparr>,
                       \<lparr>sensor = 3, angle = 1 / 4, duration = 1\<rparr>,
                       \<lparr>sensor = 4, angle = - 1 / 4, duration = 1 / 1000000\<rparr>]\<rparr>"

definition light4 :: Light where
  "light4 = \<lparr>frame_id = ''T'', lighthouse = ''A'', axis = 0,
             pulses = [\<lparr>sensor = 0, angle = 1 / 2, duration = 1\<rparr>,
                       \<lparr>sensor = 1, angle = 60 / 57.2958, duration = 1\<rparr>,
                       \<lparr>sensor = 3, angle = 1 / 4, duration = 1\<rparr>,
                       \<lparr>sensor = 4, angle = - 1 / 4, duration = 1 / 1000000\<rparr>]\<rparr>"

text \<open>
  A lighthouse whose axis 0 has a phase and whose axis 1 has a tilt, a configuration that
  applies the corrections, and a time bin where sensor 0 has two samples on each axis.
\<close>

definition lhX :: Lighthouse where
  "lhX = \<lparr>vTl = [0, 0, 0, 0, 0, 0],
          params = (\<lambda>a. if a = 0 then params0\<lparr>PARAM_PHASE := 1\<rparr>
                         else params0\<lparr>PARAM_TILT := 1\<rparr>),
          lh_ready = True\<rparr>"

definition cfg_correct :: config where
  "cfg_correct = cfg4\<lparr>correct := True\<rparr>"

definition samplesX :: Samples where
  "samplesX = (\<lambda>s a. if s = 0 then [1 / 2, 3 / 2] else [])"

text \<open>
  A tracker of four sensors, a time bin where three sensors have both angles, and two
  observations of four sensors, one for each axis, that fall into the same time bin.
\<close>

definition cfg_four :: config where
  "cfg_four = cfg4\<lparr>NUM_SENSORS := 4\<rparr>"

definition samples3 :: Samples where
  "samples3 = (\<lambda>s a. if s = 0 \<or> s = 1 \<or> s = 2 then [1 / 2] else [])"

definition lightA0 :: Light where
  "lightA0 = \<lparr>frame_id = ''T'', lighthouse = ''A'', axis = 0,
             pulses = [\<lparr>sensor = 0, angle = 1 / 2, duration = 1\<rparr>,
                       \<lparr>sensor = 1, angle = 1 / 4, duration = 1\<rparr>,
                       \<lparr>sensor = 2, angle = 1 / 8, duration = 1\<rparr>,
                       \<lparr>sensor = 3, angle = 1 / 4, duration = 1\<rparr>]\<rparr>"

definition lightA1 :: Light where
  "lightA1 = lightA0\<lparr>axis := 1\<rparr>"

text \<open>A node that has just started to record, and the node after one observation.\<close>

definition fresh_node :: node where
  "fresh_node = \<lparr>recording = True, measurements = [],
                 lighthouses = [(''A'', lhA), (''B'', lhB)], trackers = [(''T'', trT)],
                 log = [], sent = [], written = [], paths = [], timer_restarts = 0\<rparr>"

definition rec_node :: node where
  "rec_node = fresh_node\<lparr>measurements := [(1, light4)], timer_restarts := 1\<rparr>"

definition idle_node :: node where
  "idle_node = fresh_node\<lparr>recording := False\<rparr>"

text \<open>
  Libraries for the examples: a pose solver that never converges, and a global solver that
  reports an unusable solution and leaves the parameter blocks as they were.
\<close>

definition ext_fail :: ext where
  "ext_fail = \<lparr>solvePnP = (\<lambda>obj img z. None), angle_axis = (\<lambda>r. r),
               ceres_Solve = (\<lambda>blocks lhs.
                 (False, (\<lambda>k. case map_of lhs k of Some lh \<Rightarrow> vTl lh | None \<Rightarrow> [])))\<rparr>"

text \<open>A pose solver that always converges and a global solver whose solution is usable.\<close>

definition ext_ok :: ext where
  "ext_ok = \<lparr>solvePnP = (\<lambda>obj img z. Some ((0, 0, 0), (0, 0, 1))), angle_axis = (\<lambda>r. r),
             ceres_Solve = (\<lambda>blocks lhs.
               (True, (\<lambda>k. case map_of lhs k of Some lh \<Rightarrow> vTl lh | None \<Rightarrow> [])))\<rparr>"

section \<open>Properties\<close>

subsection \<open>The light decoder\<close>

lemma guard_accepts_iff:
  "deepdive_data_light ns nl lcd tc sn len \<noteq> Rejected
   \<longleftrightarrow> unat sn \<le> ns \<and> unat len \<le> 6750"
  by (auto simp: deepdive_data_light_def)

lemma guard_accepts_max:
  assumes "ns < 65536" and "unat len \<le> 2750"
  shows "deepdive_data_light ns nl lcd tc (of_nat ns) len
         = Sweep (handle_sweep nl lcd tc (of_nat ns) len)"
proof -
  have "unat (of_nat ns :: 16 word) = ns"
    using assms(1) by (simp add: unat_of_nat)
  with assms(2) show ?thesis
    by (simp add: deepdive_data_light_def)
qed

lemma handle_sweep_out_of_bounds:
  assumes "0 \<le> activeLighthouse (foldl select_lighthouse
              ((per_sweep lcd)\<lparr>activeLighthouse := - 1, activeSweepStartTime := 0,
                                activeAcode := 0\<rparr>) [0..<nl])"
    and "length (sweep_len (sweep lcd)) \<le> unat sn"
  shows "handle_sweep nl lcd tc sn len
         = Inl (OutOfBounds (unat sn) (length (sweep_len (sweep lcd))))"
  using assms by (simp add: handle_sweep_def Let_def)

text \<open>
  C10. The guard of \<^verbatim>\<open>deepdive_data_light\<close> is \<^verbatim>\<open>sensor > MAX_NUM_SENSORS\<close>, so it
  lets the sensor index \<^verbatim>\<open>MAX_NUM_SENSORS\<close> itself through. With 32 sensors, the event
  of sensor 32 and length 100 is accepted, dispatched to \<^verbatim>\<open>handle_sweep\<close>, and
  indexes \<^verbatim>\<open>sweep_len\<close> one past its end: the accepted index is not in bounds.
\<close>

theorem guard_off_by_one:
  "deepdive_data_light 32 2 lcd32 5000 32 100 = Sweep (Inl (OutOfBounds 32 32))"
  by (simp add: deepdive_data_light_def handle_sweep_def lcd32_def select_lighthouse_def
      Let_def upt_rec bit_iff_odd)

subsection \<open>The ingestion filter\<close>

lemma erase_loop_filter:
  "i \<le> length ps \<Longrightarrow>
   fst (erase_loop cfg i ps d) = filter (\<lambda>p. \<not> rejected cfg p) (take i ps) @ drop i ps"
proof (induction i arbitrary: ps d)
  case 0
  then show ?case by simp
next
  case (Suc i)
  then have lt: "i < length ps" by simp
  show ?case
  proof (cases "rejected cfg (ps ! i)")
    case True
    have "i \<le> length (take i ps @ drop (Suc i) ps)" using lt by simp
    from Suc.IH [OF this] True lt show ?thesis
      by (simp add: take_Suc_conv_app_nth)
  next
    case False
    from Suc.IH [of ps d] False lt show ?thesis
      by (simp add: take_Suc_conv_app_nth Cons_nth_drop_Suc)
  qed
qed

lemma erase_loop_all:
  "fst (erase_loop cfg (length ps) ps 0)
   = filter (\<lambda>p. angle p \<le> thresh_angle cfg / 57.2958
                 \<and> thresh_duration cfg / 1000000 \<le> duration p) ps"
proof -
  have "(\<lambda>p. \<not> rejected cfg p) = (\<lambda>p. angle p \<le> thresh_angle cfg / 57.2958
                 \<and> thresh_duration cfg / 1000000 \<le> duration p)"
    by (auto simp: rejected_def fun_eq_iff)
  then show ?thesis by (simp add: erase_loop_filter)
qed

lemma survivors5:
  "filter (\<lambda>p. angle p \<le> thresh_angle cfg4 / 57.2958
                 \<and> thresh_duration cfg4 / 1000000 \<le> duration p) (pulses light5) = pulses light4"
  by (simp add: light5_def light4_def cfg4_def)

text \<open>
  C5. While the node records, for an observation of a known tracker and lighthouse that
  are both ready, and a minimum count of pulses (a count, so not negative): the erase loop
  keeps exactly the pulses whose angle is at most the maximum and whose duration is at
  least the minimum, so a pulse at the maximum angle stays and only a strictly greater
  angle or a strictly smaller duration rejects; and the whole observation, with the
  surviving pulses, is appended to the measurement store under its arrival time if and
  only if at least \<^verbatim>\<open>thresh_count_\<close> pulses survive. With one survivor fewer the
  store is unchanged.
\<close>

theorem LightCallback_threshold:
  assumes "recording st"
    and "map_of (trackers st) (frame_id msg) = Some tr"
    and "map_of (lighthouses st) (lighthouse msg) = Some lh"
    and "tr_ready tr" and "lh_ready lh"
    and "0 \<le> sint (thresh_count cfg)"
  shows "measurements (LightCallback cfg now msg st) =
    (let data = msg\<lparr>pulses := filter (\<lambda>p. angle p \<le> thresh_angle cfg / 57.2958
                 \<and> thresh_duration cfg / 1000000 \<le> duration p) (pulses msg)\<rparr>
     in if sint (thresh_count cfg) \<le> int (length (pulses data))
        then index_upd now data (\<lambda>_. data) (measurements st)
        else measurements st)"
proof -
  have "sint (thresh_count cfg) < 2 ^ 31"
    using sint_lt [of "thresh_count cfg"] by simp
  then have "sint (thresh_count cfg) mod 2 ^ 64 = sint (thresh_count cfg)"
    using assms(6) by simp
  then show ?thesis
    using assms(1-5) by (auto simp: LightCallback_def Let_def erase_loop_all)
qed

theorem LightCallback_threshold_witness:
  "recording fresh_node \<and> map_of (trackers fresh_node) (frame_id light5) = Some trT
   \<and> map_of (lighthouses fresh_node) (lighthouse light5) = Some lhA
   \<and> tr_ready trT \<and> lh_ready lhA \<and> 0 \<le> sint (thresh_count cfg4)
   \<and> measurements (LightCallback cfg4 1 light5 fresh_node) = [(1, light4)]"
proof -
  have h: "recording fresh_node" "map_of (trackers fresh_node) (frame_id light5) = Some trT"
    "map_of (lighthouses fresh_node) (lighthouse light5) = Some lhA"
    "tr_ready trT" "lh_ready lhA" "0 \<le> sint (thresh_count cfg4)"
    by (simp_all add: fresh_node_def light5_def trT_def lhA_def cfg4_def)
  have l4: "light5\<lparr>pulses := pulses light4\<rparr> = light4"
    by (simp add: light5_def light4_def)
  have c: "sint (thresh_count cfg4) \<le> int (length (pulses light4))"
    by (simp add: cfg4_def light4_def)
  have m: "measurements fresh_node = []"
    by (simp add: fresh_node_def)
  from LightCallback_threshold [OF h, of 1]
  have "measurements (LightCallback cfg4 1 light5 fresh_node) =
        (if sint (thresh_count cfg4) \<le> int (length (pulses light4))
         then index_upd 1 light4 (\<lambda>_. light4) (measurements fresh_node)
         else measurements fresh_node)"
    by (simp only: survivors5 Let_def l4)
  with c m have "measurements (LightCallback cfg4 1 light5 fresh_node) = [(1, light4)]"
    by simp
  with h show ?thesis by simp
qed

text \<open>
  Why the count is taken not negative: \<^verbatim>\<open>data.pulses.size() < thresh_count_\<close> is
  evaluated in \<^verbatim>\<open>size_t\<close>, where a configured \<open>- 1\<close> is \<open>2 ^ 64 - 1\<close>, so with
  that value an observation with four surviving pulses is dropped.
\<close>

lemma negative_count_drops:
  "sint (thresh_count cfg_neg) = - 1
   \<and> length (fst (erase_loop cfg_neg (length (pulses light5)) (pulses light5) 0)) = 4
   \<and> measurements (LightCallback cfg_neg 1 light5 fresh_node) = []"
  by (simp add: fresh_node_def light5_def trT_def lhA_def cfg_neg_def cfg4_def
      LightCallback_def rejected_def Let_def)

subsection \<open>The recording state machine and the entry of \<^verbatim>\<open>Solve\<close>\<close>

lemma Solve_recording: "recording (snd (Solve e cfg st)) = recording st"
  by (simp add: Solve_def Let_def)

text \<open>
  C8. On an empty measurement store \<^verbatim>\<open>Solve\<close> returns \<^verbatim>\<open>false\<close> at once; the only
  effect is the warning that too few measurements were received. The lighthouses and their
  transforms, the trackers, what was sent and what was written are as before.
\<close>

theorem Solve_empty_store:
  "measurements st = [] \<Longrightarrow>
   Solve e cfg st =
     (False, st\<lparr>log := log st
        @ [Warn ''Insufficient measurements received, so cannot solve problem.'']\<rparr>)
   \<and> lighthouses (snd (Solve e cfg st)) = lighthouses st
   \<and> trackers (snd (Solve e cfg st)) = trackers st
   \<and> sent (snd (Solve e cfg st)) = sent st
   \<and> written (snd (Solve e cfg st)) = written st
   \<and> paths (snd (Solve e cfg st)) = paths st"
  by (simp add: Solve_def)

theorem Solve_empty_store_witness:
  "measurements idle_node = [] \<and> fst (Solve ext_fail cfg4 idle_node) = False
   \<and> lighthouses (snd (Solve ext_fail cfg4 idle_node)) = [(''A'', lhA), (''B'', lhB)]
   \<and> sent (snd (Solve ext_fail cfg4 idle_node)) = []
   \<and> written (snd (Solve ext_fail cfg4 idle_node)) = []
   \<and> log (snd (Solve ext_fail cfg4 idle_node))
       = [Warn ''Insufficient measurements received, so cannot solve problem.'']"
proof -
  have h: "measurements idle_node = []"
    by (simp add: idle_node_def fresh_node_def)
  from Solve_empty_store [OF h, of ext_fail cfg4] h show ?thesis
    by (simp add: idle_node_def fresh_node_def)
qed

text \<open>
  C9. A call of \<^verbatim>\<open>TriggerCallback\<close>, from the service or from \<^verbatim>\<open>TimerCallback\<close>,
  flips \<^verbatim>\<open>recording_\<close>. When the node was recording, the call runs \<^verbatim>\<open>Solve\<close> on the
  state it found, reports its result in the response, and leaves the state of \<^verbatim>\<open>Solve\<close>
  with the measurement store cleared, whatever \<^verbatim>\<open>Solve\<close> returned. When the node was
  idle, nothing but the flag changes: no data is cleared and \<^verbatim>\<open>Solve\<close> does not run.
  The resolution is positive whenever the call reaches the bundling of \<^verbatim>\<open>Solve\<close>,
  that is, when the node was recording and the store is not empty: with a zero
  resolution the source throws there and neither clears the store nor flips the flag.
\<close>

theorem Trigger_toggles:
  assumes "recording st \<and> measurements st \<noteq> [] \<longrightarrow> 0 < res cfg"
  shows "recording (snd (snd (TriggerCallback e cfg r st))) = (\<not> recording st)
   \<and> recording (TimerCallback e cfg st) = (\<not> recording st)
   \<and> (recording st \<longrightarrow>
        snd (snd (TriggerCallback e cfg r st))
          = (snd (Solve e cfg st))\<lparr>measurements := [], recording := False\<rparr>
        \<and> success (fst (snd (TriggerCallback e cfg r st))) = fst (Solve e cfg st)
        \<and> measurements (snd (snd (TriggerCallback e cfg r st))) = []
        \<and> TimerCallback e cfg st
          = (snd (Solve e cfg st))\<lparr>measurements := [], recording := False\<rparr>)
   \<and> (\<not> recording st \<longrightarrow>
        snd (snd (TriggerCallback e cfg r st)) = st\<lparr>recording := True\<rparr>
        \<and> TimerCallback e cfg st = st\<lparr>recording := True\<rparr>)"
  by (simp add: TriggerCallback_def TimerCallback_def Let_def Solve_recording)

theorem Trigger_toggles_witness:
  "recording rec_node \<and> measurements rec_node \<noteq> [] \<and> 0 < res cfg4
   \<and> \<not> recording (snd (snd (TriggerCallback ext_fail cfg4 \<lparr>success = False, message = []\<rparr> rec_node)))
   \<and> measurements (snd (snd (TriggerCallback ext_fail cfg4 \<lparr>success = False, message = []\<rparr> rec_node))) = []
   \<and> success (fst (snd (TriggerCallback ext_fail cfg4 \<lparr>success = False, message = []\<rparr> rec_node)))
       = fst (Solve ext_fail cfg4 rec_node)
   \<and> \<not> recording idle_node
   \<and> TimerCallback ext_fail cfg4 idle_node = idle_node\<lparr>recording := True\<rparr>"
proof -
  have h: "recording rec_node" "measurements rec_node \<noteq> []" "0 < res cfg4"
    "\<not> recording idle_node"
    by (simp_all add: rec_node_def idle_node_def fresh_node_def cfg4_def)
  have a: "recording rec_node \<and> measurements rec_node \<noteq> [] \<longrightarrow> 0 < res cfg4"
    and b: "recording idle_node \<and> measurements idle_node \<noteq> [] \<longrightarrow> 0 < res cfg4"
    using h by simp_all
  from Trigger_toggles [OF a, of ext_fail "\<lparr>success = False, message = []\<rparr>"]
    Trigger_toggles [OF b, of ext_fail "\<lparr>success = False, message = []\<rparr>"] h
  show ?thesis by simp
qed

subsection \<open>The result of \<^verbatim>\<open>Solve\<close> and the master lighthouse\<close>

lemma Solve_nonempty: "measurements st \<noteq> [] \<Longrightarrow> fst (Solve e cfg st) = True"
  by (simp add: Solve_def Let_def)

text \<open>
  C2. With one stored observation and a global solver whose solution is not usable,
  \<^verbatim>\<open>Solve\<close> logs that no solution was found and returns \<^verbatim>\<open>true\<close> all the same, so
  the trigger response reports success with the message that a solution was found.
\<close>

theorem Solve_reports_success_without_solution:
  "measurements rec_node \<noteq> []
   \<and> fst (ceres_Solve ext_fail blocks lhs) = False
   \<and> fst (Solve ext_fail cfg4 rec_node) = True
   \<and> last (log (snd (Solve ext_fail cfg4 rec_node))) = Info ''- Solution not found''
   \<and> fst (snd (TriggerCallback ext_fail cfg4 r rec_node))
       = r\<lparr>success := True, message := ''Recording stopped. Solution found.''\<rparr>"
  by (simp add: Solve_def TriggerCallback_def Let_def rec_node_def fresh_node_def ext_fail_def)

lemma reset_master_vTl: "vTl (reset_master lh) = (vTl lh)[0 := 0]"
  by (simp add: reset_master_def upt_rec)

lemma slave_blocks_param: "b \<in> set (slave_blocks lm trs poses lt) \<Longrightarrow> rb_param b = lt"
  by (auto simp: slave_blocks_def map_filter_def residual_block_def split: option.splits)

lemma build_problem_params:
  "b \<in> set (snd (build_problem (lm # slaves) trs poses)) \<Longrightarrow> rb_param b \<in> fst ` set slaves"
  by (auto simp: build_problem_def dest: slave_blocks_param)

lemma master_not_free:
  "fst lm \<notin> fst ` set slaves \<Longrightarrow>
   fst lm \<notin> rb_param ` set (snd (build_problem (lm # slaves) trs poses))"
  by (auto dest: build_problem_params)

lemma Solve_master:
  assumes "measurements st \<noteq> []" and "lighthouses st = (m, M) # slaves"
    and "m \<notin> fst ` set slaves"
  shows "hd (lighthouses (snd (Solve e cfg st))) = (m, M\<lparr>vTl := (vTl M)[0 := 0]\<rparr>)"
proof -
  have "m \<notin> rb_param ` set (snd (build_problem ((m, M) # slaves) trs poses))" for trs poses
    using master_not_free [of "(m, M)" slaves] assms(3) by simp
  then show ?thesis
    using assms(1,2)
    by (simp add: Solve_def Let_def write_back_def build_problem_def reset_master_def upt_rec)
qed

text \<open>
  C1. The loop that resets the master writes \<^verbatim>\<open>vTl[0]\<close> six times, so only the first
  of the six parameters becomes zero. With the master transform \<open>[1, 2, 3, 4, 5, 6]\<close>
  and a non-empty store, the master transform after \<^verbatim>\<open>Solve\<close> is
  \<open>[0, 2, 3, 4, 5, 6]\<close>, for every pose solver and every global solver: it is not the
  zero vector.
\<close>

theorem master_transform_not_reset:
  "measurements rec_node \<noteq> []
   \<and> hd (lighthouses rec_node) = (''A'', lhA) \<and> vTl lhA = [1, 2, 3, 4, 5, 6]
   \<and> fst (hd (lighthouses (snd (Solve e cfg rec_node)))) = ''A''
   \<and> vTl (snd (hd (lighthouses (snd (Solve e cfg rec_node))))) = [0, 2, 3, 4, 5, 6]"
proof -
  have h: "measurements rec_node \<noteq> []" "lighthouses rec_node = (''A'', lhA) # [(''B'', lhB)]"
    "''A'' \<notin> fst ` set [(''B'', lhB)]"
    by (simp_all add: rec_node_def fresh_node_def)
  from Solve_master [OF h, of e cfg] h show ?thesis
    by (simp add: lhA_def)
qed

subsection \<open>The correction of the angles\<close>

lemma corrected_closed:
  "corrected lh [m0, m1] =
     [spec_corrected lh m0 m1 0, spec_corrected lh (spec_corrected lh m0 m1 0) m1 1]"
  by (simp add: corrected_def correct_axis_def spec_corrected_def Let_def power2_eq_square
      mult.assoc)

lemma MeanX: "Mean (samplesX 0 a) = Some 1"
  by (simp add: Mean_def samplesX_def)

text \<open>
  C4, as amended. When the corrections are applied, for a sensor with the mean angles
  \<open>m0\<close> and \<open>m1\<close>: the angle of axis 0 used for the image point is
  \<open>c0 = m0 - phase0 - tilt0 * m1 - curve0 * m1\<^sup>2 - gibmag0 * cos (m1 + gibphase0)\<close>, on
  the mean angle of axis 1; the angle of axis 1 is
  \<open>m1 - phase1 - tilt1 * c0 - curve1 * c0\<^sup>2 - gibmag1 * cos (c0 + gibphase1)\<close>, on the
  angle of axis 0 that has already been corrected, since the loop updates the angles in
  place.
\<close>

theorem correction_in_order:
  assumes "correct cfg" and "Mean (f s 0) = Some m0" and "Mean (f s 1) = Some m1"
  shows "map_option snd (correspondence cfg lh tr f s) =
     (let c0 = spec_corrected lh m0 m1 0; c1 = spec_corrected lh c0 m1 1
      in Some (principal_distance * tan c0, principal_distance * tan c1))"
  using assms by (simp add: correspondence_def corrected_closed Let_def)

theorem correction_in_order_witness:
  "correct cfg_correct \<and> Mean (samplesX 0 0) = Some 1 \<and> Mean (samplesX 0 1) = Some 1
   \<and> map_option snd (correspondence cfg_correct lhX trT samplesX 0)
     = Some (principal_distance * tan 0, principal_distance * tan 1)"
proof -
  have h: "correct cfg_correct" "Mean (samplesX 0 0) = Some 1" "Mean (samplesX 0 1) = Some 1"
    by (simp_all add: cfg_correct_def cfg4_def MeanX)
  have c: "spec_corrected lhX 1 1 0 = 0" "spec_corrected lhX 0 1 1 = 1"
    by (simp_all add: spec_corrected_def lhX_def params0_def)
  from correction_in_order [of cfg_correct samplesX 0 1 1 lhX trT, OF h]
  have "map_option snd (correspondence cfg_correct lhX trT samplesX 0)
     = Some (principal_distance * tan 0, principal_distance * tan 1)"
    by (simp only: Let_def c)
  with h show ?thesis by blast
qed

text \<open>
  With the mean angles 1 and 1, a phase of 1 on axis 0 and a tilt of 1 on axis 1, the
  code's angle of axis 1 is 1 (the tilt meets the corrected angle 0 of axis 0), where the
  formula on the mean angle of axis 0 gives 0.
\<close>

theorem second_axis_counterexample:
  "corrected lhX [1, 1] ! 1 \<noteq> spec_corrected lhX 1 1 1"
  by (simp add: corrected_def correct_axis_def spec_corrected_def lhX_def params0_def Let_def)

subsection \<open>The residual of the global problem\<close>

lemma conjugate_product:
  "conjugate (QuaternionProduct z w) = QuaternionProduct (conjugate w) (conjugate z)"
  by (cases z, cases w) (simp add: conjugate_def QuaternionProduct_def algebra_simps)

lemma conjugate_inverse:
  "QuaternionProduct q (conjugate q)
   = (fst q * fst q + fst (snd q) * fst (snd q) + fst (snd (snd q)) * fst (snd (snd q))
      + snd (snd (snd q)) * snd (snd (snd q)), 0, 0, 0)"
  by (cases q) (simp add: conjugate_def QuaternionProduct_def algebra_simps)

lemma negate_vector_part:
  "(case (case (case q of (i0, i1, i2, i3) \<Rightarrow> (i0, - i1, i2, i3)) of
            (i0, i1, i2, i3) \<Rightarrow> (i0, i1, - i2, i3)) of
      (i0, i1, i2, i3) \<Rightarrow> (i0, i1, i2, - i3)) = conjugate q"
  by (cases q) (simp add: conjugate_def)

text \<open>
  C3, as amended. The translational residual is, component by component, the master pose
  translation minus the sum of the slave-to-master and slave pose translations. The
  rotational residual is the axis-angle vector of the master pose rotation composed with
  the inverse of (slave-to-master rotation composed with slave pose rotation), that is,
  \<open>mRt * (mRs * sRt)\<^sup>-\<^sup>1 = mRt * sRt\<^sup>-\<^sup>1 * mRs\<^sup>-\<^sup>1\<close>, as the comment in the source says.
\<close>

theorem TransformCost_residual:
  "TransformCost mTs mTt sTt =
     [mTt ! 0 - (mTs ! 0 + sTt ! 0), mTt ! 1 - (mTs ! 1 + sTt ! 1), mTt ! 2 - (mTs ! 2 + sTt ! 2)]
     @ (case QuaternionToAngleAxis
               (QuaternionProduct (AngleAxisToQuaternion (mTt ! 3, mTt ! 4, mTt ! 5))
                  (QuaternionProduct
                     (conjugate (AngleAxisToQuaternion (sTt ! 3, sTt ! 4, sTt ! 5)))
                     (conjugate (AngleAxisToQuaternion (mTs ! 3, mTs ! 4, mTs ! 5))))) of
          (r3, r4, r5) \<Rightarrow> [r3, r4, r5])"
proof -
  have "[0..<3] = [0, 1, 2::nat]"
    by (simp add: upt_rec numeral_eq_Suc)
  then show ?thesis
    unfolding TransformCost_def Let_def negate_vector_part conjugate_product by simp
qed

lemma TransformCost_rotation:
  "drop 3 (TransformCost mTs mTt sTt) =
     (case QuaternionToAngleAxis
               (QuaternionProduct (AngleAxisToQuaternion (mTt ! 3, mTt ! 4, mTt ! 5))
                  (QuaternionProduct
                     (conjugate (AngleAxisToQuaternion (sTt ! 3, sTt ! 4, sTt ! 5)))
                     (conjugate (AngleAxisToQuaternion (mTs ! 3, mTs ! 4, mTs ! 5))))) of
          (r3, r4, r5) \<Rightarrow> [r3, r4, r5])"
proof -
  have "[0..<3] = [0, 1, 2::nat]"
    by (simp add: upt_rec numeral_eq_Suc)
  then show ?thesis
    unfolding TransformCost_def Let_def negate_vector_part conjugate_product by simp
qed

lemma sqrt_half: "sqrt (1 / 2) = sqrt 2 / 2"
  by (simp add: real_sqrt_divide real_div_sqrt)

lemma a2q_zero: "AngleAxisToQuaternion (0, 0, 0) = (1, 0, 0, 0)"
  by (simp add: AngleAxisToQuaternion_def)

lemma a2q_quarter: "AngleAxisToQuaternion (pi / 2, 0, 0) = (sqrt 2 / 2, sqrt 2 / 2, 0, 0)"
proof -
  have "pi * pi / 4 = (pi / 2)\<^sup>2"
    by (simp add: power2_eq_square)
  then have h: "sqrt (pi * pi / 4) = pi / 2"
    by (simp only: real_sqrt_abs) simp
  show ?thesis
    by (simp add: AngleAxisToQuaternion_def Let_def h sin_45 cos_45)
qed

lemma atan2_diagonal: "atan2 (sqrt 2 / 2) (sqrt 2 / 2) = pi / 4"
  by (simp add: atan2_def arctan_one)

lemma q2a_quarter: "QuaternionToAngleAxis (sqrt 2 / 2, sqrt 2 / 2, 0, 0) = (pi / 2, 0, 0)"
proof -
  have sq: "sqrt 2 / 2 * (sqrt 2 / 2) = 1 / 2" by simp
  show ?thesis
    unfolding QuaternionToAngleAxis_def Let_def
    by (simp add: sq sqrt_half atan2_diagonal del: real_sqrt_eq_iff)
qed

lemma q2a_minus_quarter:
  "QuaternionToAngleAxis (sqrt 2 / 2, - (sqrt 2 / 2), 0, 0) = (- (pi / 2), 0, 0)"
proof -
  have sq: "sqrt 2 / 2 * (sqrt 2 / 2) = 1 / 2" by simp
  show ?thesis
    unfolding QuaternionToAngleAxis_def Let_def
    by (simp add: sq sqrt_half atan2_diagonal)
qed

text \<open>
  A slave-to-master transform that turns a quarter turn about the first axis, with both
  poses at the identity: the code's rotational residual is the quarter turn backwards,
  where the composition in the order of the specification gives the quarter turn forwards.
\<close>

theorem composition_order_counterexample:
  "drop 3 (TransformCost [0, 0, 0, pi / 2, 0, 0] [0, 0, 0, 0, 0, 0] [0, 0, 0, 0, 0, 0])
     = [- (pi / 2), 0, 0]
   \<and> spec_rotation_residual [0, 0, 0, pi / 2, 0, 0] [0, 0, 0, 0, 0, 0] [0, 0, 0, 0, 0, 0]
     = [pi / 2, 0, 0]
   \<and> drop 3 (TransformCost [0, 0, 0, pi / 2, 0, 0] [0, 0, 0, 0, 0, 0] [0, 0, 0, 0, 0, 0])
     \<noteq> spec_rotation_residual [0, 0, 0, pi / 2, 0, 0] [0, 0, 0, 0, 0, 0] [0, 0, 0, 0, 0, 0]"
proof -
  have one: "QuaternionProduct (1, 0, 0, 0) q = q" "QuaternionProduct q (1, 0, 0, 0) = q" for q
    by (cases q, simp add: QuaternionProduct_def)+
  have c1: "conjugate (1, 0, 0, 0) = (1, 0, 0, 0)"
    by (simp add: conjugate_def)
  have cq: "conjugate (sqrt 2 / 2, sqrt 2 / 2, 0, 0) = (sqrt 2 / 2, - (sqrt 2 / 2), 0, 0)"
    by (simp add: conjugate_def)
  have a: "drop 3 (TransformCost [0, 0, 0, pi / 2, 0, 0] [0, 0, 0, 0, 0, 0] [0, 0, 0, 0, 0, 0])
     = [- (pi / 2), 0, 0]"
    unfolding TransformCost_rotation
    by (simp add: a2q_zero a2q_quarter one c1 cq q2a_minus_quarter)
  have b: "spec_rotation_residual [0, 0, 0, pi / 2, 0, 0] [0, 0, 0, 0, 0, 0] [0, 0, 0, 0, 0, 0]
     = [pi / 2, 0, 0]"
    unfolding spec_rotation_residual_def
    by (simp add: a2q_zero a2q_quarter one c1 q2a_quarter)
  have "0 < pi / 2" by simp
  then have "- (pi / 2) \<noteq> pi / 2" by linarith
  with a b show ?thesis by simp
qed

subsection \<open>\<^verbatim>\<open>operator[]\<close> on a sorted map\<close>

lemma index_upd_keys: "set (map fst (index_upd k d f m)) = insert k (set (map fst m))"
proof (induction m)
  case Nil
  then show ?case by simp
next
  case (Cons x m)
  obtain k' v where x: "x = (k', v)" by (cases x)
  from Cons x show ?case by (cases "k < k'"; cases "k = k'") auto
qed

lemma index_upd_sorted:
  "sorted_wrt (<) (map fst m) \<Longrightarrow> sorted_wrt (<) (map fst (index_upd k d f m))"
proof (induction m)
  case Nil
  then show ?case by simp
next
  case (Cons x m)
  obtain k' v where x: "x = (k', v)" by (cases x)
  show ?case
  proof (cases "k < k'")
    case True
    with Cons.prems x show ?thesis by auto
  next
    case False
    with Cons x show ?thesis
      using index_upd_keys [of k d f m] by (cases "k = k'") auto
  qed
qed

lemma index_upd_map_of:
  "sorted_wrt (<) (map fst m) \<Longrightarrow>
   map_of (index_upd k d f m) k'
   = (if k' = k then Some (f (case map_of m k of None \<Rightarrow> d | Some v \<Rightarrow> v)) else map_of m k')"
proof (induction m)
  case Nil
  then show ?case by simp
next
  case (Cons x m)
  obtain k1 v where x: "x = (k1, v)" by (cases x)
  have notin: "k < k1 \<Longrightarrow> map_of m k = None"
    using Cons.prems x by (force simp: map_of_eq_None_iff)
  from Cons x show ?case
    by (auto simp: notin)
qed

lemma index_upd_entries:
  "(k', v') \<in> set (index_upd k d f m) \<Longrightarrow>
   (k' = k \<and> (v' = f d \<or> (\<exists>v. (k, v) \<in> set m \<and> v' = f v))) \<or> (k', v') \<in> set m"
proof (induction m)
  case Nil
  then show ?case by simp
next
  case (Cons x m)
  obtain k1 v1 where x: "x = (k1, v1)" by (cases x)
  consider "k < k1" | "k = k1" | "\<not> k < k1" "k \<noteq> k1" by blast
  then show ?case
  proof cases
    case 1
    with Cons.prems x show ?thesis by auto
  next
    case 2
    with Cons.prems x show ?thesis by auto
  next
    case 3
    with Cons.prems x have "(k', v') = (k1, v1) \<or> (k', v') \<in> set (index_upd k d f m)"
      by simp
    then show ?thesis
    proof
      assume "(k', v') = (k1, v1)"
      with x show ?thesis by simp
    next
      assume "(k', v') \<in> set (index_upd k d f m)"
      from Cons.IH [OF this] show ?thesis by auto
    qed
  qed
qed

subsection \<open>The temporal bundler\<close>

lemma bundle_pulse_sorted:
  "bundle_sorted b \<Longrightarrow> bundle_sorted (bundle_pulse ts ls t a b p)"
  by (simp add: bundle_sorted_def bundle_pulse_def index_upd_sorted)

lemma push_back_populated: "\<exists>s' a'. push_back s a x f s' a' \<noteq> []"
  by (rule exI [of _ s], rule exI [of _ a]) (simp add: push_back_def)

lemma bundle_pulse_populated:
  assumes "bundle_populated b"
  shows "bundle_populated (bundle_pulse ts ls t a b p)"
  unfolding bundle_populated_def
proof (intro allI impI)
  fix tt lt t' f
  assume in_new: "(t', f) \<in> set (bundle_pulse ts ls t a b p tt lt)"
  show "\<exists>s a. f s a \<noteq> []"
  proof (cases "tt = ts \<and> lt = ls")
    case True
    with in_new have "(t', f) \<in> set (index_upd t (\<lambda>_ _. [])
        (push_back (sensor p) a (angle p)) (b ts ls))"
      by (simp add: bundle_pulse_def)
    from index_upd_entries [OF this] show ?thesis
      using assms push_back_populated unfolding bundle_populated_def by blast
  next
    case False
    with in_new have "(t', f) \<in> set (b tt lt)"
      by (auto simp: bundle_pulse_def split: if_splits)
    with assms show ?thesis unfolding bundle_populated_def by blast
  qed
qed

lemma bundle_pulse_samples:
  assumes "bundle_sorted b"
  shows "samples_at (bundle_pulse ts ls t a b p tt lt) t' s' a'
         = samples_at (b tt lt) t' s' a'
           @ (if tt = ts \<and> lt = ls \<and> t' = t \<and> s' = sensor p \<and> a' = a then [angle p] else [])"
proof -
  have srt: "sorted_wrt (<) (map fst (b ts ls))"
    using assms by (simp add: bundle_sorted_def)
  show ?thesis
    by (auto simp: samples_at_def bundle_pulse_def index_upd_map_of [OF srt] push_back_def
        split: option.splits)
qed

lemma bundle_pulses:
  "bundle_sorted b \<Longrightarrow> bundle_populated b \<Longrightarrow>
   bundle_sorted (foldl (bundle_pulse ts ls t a) b ps)
   \<and> bundle_populated (foldl (bundle_pulse ts ls t a) b ps)
   \<and> samples_at (foldl (bundle_pulse ts ls t a) b ps tt lt) t' s' a'
     = samples_at (b tt lt) t' s' a'
       @ (if tt = ts \<and> lt = ls \<and> t' = t \<and> a' = a
          then map angle (filter (\<lambda>p. sensor p = s') ps) else [])"
proof (induction ps arbitrary: b)
  case Nil
  then show ?case by simp
next
  case (Cons p ps)
  from Cons.IH [OF bundle_pulse_sorted [OF Cons.prems(1)] bundle_pulse_populated [OF Cons.prems(2)]]
  show ?case
    by (simp add: bundle_pulse_samples [OF Cons.prems(1)])
qed

lemma bundle_fold:
  "bundle_sorted b \<Longrightarrow> bundle_populated b \<Longrightarrow>
   bundle_sorted (foldl (bundle_measurement r) b ms)
   \<and> bundle_populated (foldl (bundle_measurement r) b ms)
   \<and> samples_at (foldl (bundle_measurement r) b ms tt lt) t s a
     = samples_at (b tt lt) t s a @ bin_angles r ms tt lt t s a"
proof (induction ms arbitrary: b)
  case Nil
  then show ?case by (simp add: bin_angles_def)
next
  case (Cons mt ms)
  note step = bundle_pulses [OF Cons.prems, of "frame_id (snd mt)" "lighthouse (snd mt)"
      "discretize r (fst mt)" "axis (snd mt)" "pulses (snd mt)"]
  have s1: "bundle_sorted (bundle_measurement r b mt)"
    and p1: "bundle_populated (bundle_measurement r b mt)"
    using step by (simp_all add: bundle_measurement_def)
  have e1: "samples_at (bundle_measurement r b mt tt lt) t s a
     = samples_at (b tt lt) t s a @ bin_angles r [mt] tt lt t s a"
    using step [of tt lt t s a] by (simp add: bundle_measurement_def bin_angles_def)
  from Cons.IH [OF s1 p1] show ?case
    by (simp add: e1 bin_angles_def)
qed

lemma bundle_empty: "bundle_sorted (\<lambda>_ _. [])" "bundle_populated (\<lambda>_ _. [])"
  by (simp_all add: bundle_sorted_def bundle_populated_def)

lemma bundle_measurements_samples:
  "samples_at (bundle_measurements r ms tt lt) t s a = bin_angles r ms tt lt t s a"
  using bundle_fold [OF bundle_empty, of r ms tt lt t s a]
  by (simp add: bundle_measurements_def samples_at_def)

lemma bundle_measurements_populated:
  "(t, f) \<in> set (bundle_measurements r ms tt lt) \<Longrightarrow> \<exists>s a. f s a \<noteq> []"
  using bundle_fold [OF bundle_empty, of r ms]
  unfolding bundle_measurements_def bundle_populated_def by blast

lemma c_round_nearest: "\<bar>c_round x - x\<bar> \<le> 1 / 2"
proof (cases "0 \<le> x")
  case True
  have "\<bar>of_int \<lfloor>x + 1 / 2\<rfloor> - x\<bar> \<le> 1 / 2"
    by linarith
  with True show ?thesis by (simp add: c_round_def)
next
  case False
  have "\<bar>of_int \<lceil>x - 1 / 2\<rceil> - x\<bar> \<le> 1 / 2"
    by linarith
  with False show ?thesis by (simp add: c_round_def)
qed

lemma c_round_int: "\<exists>k::int. c_round x = of_int k"
  by (auto simp: c_round_def)

lemma discretize_nearest:
  assumes "0 < r"
  shows "\<bar>discretize r t - t\<bar> \<le> r / 2"
proof -
  have "discretize r t - t = (c_round (t / r) - t / r) * r"
    using assms by (simp add: discretize_def algebra_simps)
  then have "\<bar>discretize r t - t\<bar> = \<bar>c_round (t / r) - t / r\<bar> * r"
    using assms by (simp add: abs_mult)
  also have "\<dots> \<le> 1 / 2 * r"
    using c_round_nearest [of "t / r"] assms by (intro mult_right_mono) simp_all
  finally show ?thesis by simp
qed

lemma foldl_add: "foldl (+) a v = a + sum_list (v::real list)"
  by (induction v arbitrary: a) simp_all

lemma Mean_eq: "Mean v = (if v = [] then None else Some (sum_list v / real (length v)))"
  by (simp add: Mean_def foldl_add)

text \<open>
  C6. For a resolution \<open>r > 0\<close>: the time of an observation is discretized to an integer
  multiple of \<open>r\<close> that is at most \<open>r / 2\<close> away from it, so to the nearest one. After
  the bundling of any store, the samples under the key (tracker, lighthouse, discretized
  time, sensor, axis) are exactly the angles that fell in that bin; \<^verbatim>\<open>Mean\<close> of them is
  their sum divided by their number when there is one, and fails when there is none, so
  an empty bin yields no value; and no time bin exists without a sample.
\<close>

theorem bundling:
  assumes "0 < r"
  shows "\<bar>discretize r t0 - t0\<bar> \<le> r / 2 \<and> (\<exists>k::int. discretize r t0 = of_int k * r)
    \<and> samples_at (bundle_measurements r ms tt lt) t s a = bin_angles r ms tt lt t s a
    \<and> Mean (samples_at (bundle_measurements r ms tt lt) t s a)
        = (if bin_angles r ms tt lt t s a = [] then None
           else Some (sum_list (bin_angles r ms tt lt t s a)
                      / real (length (bin_angles r ms tt lt t s a))))
    \<and> (\<forall>f. (t, f) \<in> set (bundle_measurements r ms tt lt) \<longrightarrow> (\<exists>s a. f s a \<noteq> []))"
proof (intro conjI)
  show "\<bar>discretize r t0 - t0\<bar> \<le> r / 2"
    by (rule discretize_nearest [OF assms])
  show "\<exists>k::int. discretize r t0 = of_int k * r"
    using c_round_int [of "t0 / r"] by (auto simp: discretize_def)
  show "samples_at (bundle_measurements r ms tt lt) t s a = bin_angles r ms tt lt t s a"
    by (rule bundle_measurements_samples)
  show "Mean (samples_at (bundle_measurements r ms tt lt) t s a)
        = (if bin_angles r ms tt lt t s a = [] then None
           else Some (sum_list (bin_angles r ms tt lt t s a)
                      / real (length (bin_angles r ms tt lt t s a))))"
    by (simp only: bundle_measurements_samples Mean_eq)
  show "\<forall>f. (t, f) \<in> set (bundle_measurements r ms tt lt) \<longrightarrow> (\<exists>s a. f s a \<noteq> [])"
    using bundle_measurements_populated by blast
qed

lemma bin_light4: "bin_angles (1 / 10) [(1, light4)] ''T'' ''A'' 1 0 0 = [1 / 2]"
  by (simp add: bin_angles_def light4_def discretize_def c_round_def)

lemma bundle_light4:
  "\<exists>f. bundle_measurements (1 / 10) [(1, light4)] ''T'' ''A'' = [(1, f)]"
  by (simp add: bundle_measurements_def bundle_measurement_def bundle_pulse_def light4_def
      discretize_def c_round_def)

theorem bundling_witness:
  "(0::real) < 1 / 10
   \<and> \<bar>discretize (1 / 10) 1 - 1\<bar> \<le> (1 / 10) / 2
   \<and> samples_at (bundle_measurements (1 / 10) [(1, light4)] ''T'' ''A'') 1 0 0 = [1 / 2]
   \<and> Mean (samples_at (bundle_measurements (1 / 10) [(1, light4)] ''T'' ''A'') 1 0 0)
       = Some (1 / 2)
   \<and> (\<exists>f. (1, f) \<in> set (bundle_measurements (1 / 10) [(1, light4)] ''T'' ''A'')
           \<and> (\<exists>s a. f s a \<noteq> []))"
proof -
  have h: "(0::real) < 1 / 10" by simp
  note inst = bundling [OF h, of 1 "[(1, light4)]" "''T''" "''A''" 1 0 0]
  from bundle_light4 obtain f
    where f: "(1, f) \<in> set (bundle_measurements (1 / 10) [(1, light4)] ''T'' ''A'')"
    by auto
  with inst have "\<exists>s a. f s a \<noteq> []" by blast
  with f have ex: "\<exists>f. (1, f) \<in> set (bundle_measurements (1 / 10) [(1, light4)] ''T'' ''A'')
           \<and> (\<exists>s a. f s a \<noteq> [])"
    by blast
  from inst h have "\<bar>discretize (1 / 10) 1 - 1\<bar> \<le> (1 / 10) / 2
   \<and> samples_at (bundle_measurements (1 / 10) [(1, light4)] ''T'' ''A'') 1 0 0 = [1 / 2]
   \<and> Mean (samples_at (bundle_measurements (1 / 10) [(1, light4)] ''T'' ''A'') 1 0 0)
       = Some (1 / 2)"
    by (simp add: bin_light4 Mean_def)
  with h ex show ?thesis by blast
qed

subsection \<open>The pose bootstrap\<close>

lemma pnp_epoch_justified:
  assumes inv: "poses_justified e cfg bundle (fst acc)"
    and bt: "bt \<in> set (bundle (fst tt) (fst lt))"
  shows "poses_justified e cfg bundle (fst (pnp_epoch e cfg lt tt acc bt))"
proof (cases "epoch_pose e cfg (snd lt) (snd tt) (snd bt)")
  case None
  with inv show ?thesis by (simp add: pnp_epoch_def)
next
  case (Some p)
  have new: "\<exists>lh tr f. (fst bt, f) \<in> set (bundle (fst tt) (fst lt))
                \<and> epoch_pose e cfg lh tr f = Some p"
    using bt Some by (intro exI [of _ "snd lt"] exI [of _ "snd tt"] exI [of _ "snd bt"]) simp
  show ?thesis
    unfolding poses_justified_def
  proof (intro allI impI, elim conjE)
    fix tt' t m lt' p'
    assume mem: "(t, m) \<in> set (fst (pnp_epoch e cfg lt tt acc bt) tt')" and at: "m lt' = Some p'"
    show "\<exists>lh tr f. (t, f) \<in> set (bundle tt' lt') \<and> epoch_pose e cfg lh tr f = Some p'"
    proof (cases "tt' = fst tt")
      case False
      with mem Some have "(t, m) \<in> set (fst acc tt')"
        by (simp add: pnp_epoch_def)
      with inv at show ?thesis unfolding poses_justified_def by blast
    next
      case True
      with mem Some have "(t, m) \<in> set (index_upd (fst bt) (\<lambda>_. None)
                               (\<lambda>m. m(fst lt \<mapsto> p)) (fst acc (fst tt)))"
        by (simp add: pnp_epoch_def)
      from index_upd_entries [OF this]
      consider "t = fst bt" "m = (\<lambda>_. None)(fst lt \<mapsto> p)"
        | m0 where "t = fst bt" "(fst bt, m0) \<in> set (fst acc (fst tt))" "m = m0(fst lt \<mapsto> p)"
        | "(t, m) \<in> set (fst acc (fst tt))"
        by blast
      then show ?thesis
      proof cases
        case 1
        with at have "lt' = fst lt" "p' = p" by (auto split: if_splits)
        with new 1 True show ?thesis by simp
      next
        case 2
        show ?thesis
        proof (cases "lt' = fst lt")
          case lt: True
          with at 2 have "p' = p" by simp
          with new 2 True lt show ?thesis by simp
        next
          case False
          with at 2 have "m0 lt' = Some p'" by simp
          with inv 2 True show ?thesis unfolding poses_justified_def by blast
        qed
      next
        case 3
        with inv at True show ?thesis unfolding poses_justified_def by blast
      qed
    qed
  qed
qed

lemma pnp_epochs_justified:
  "poses_justified e cfg bundle (fst acc) \<Longrightarrow> set bts \<subseteq> set (bundle (fst tt) (fst lt)) \<Longrightarrow>
   poses_justified e cfg bundle (fst (foldl (pnp_epoch e cfg lt tt) acc bts))"
proof (induction bts arbitrary: acc)
  case Nil
  then show ?case by simp
next
  case (Cons bt bts)
  then have "poses_justified e cfg bundle (fst (pnp_epoch e cfg lt tt acc bt))"
    by (intro pnp_epoch_justified) simp_all
  with Cons show ?case by simp
qed

lemma pnp_tracker_justified:
  "poses_justified e cfg bundle (fst (snd acc)) \<Longrightarrow>
   poses_justified e cfg bundle (fst (snd (pnp_tracker e cfg bundle lt acc tt)))"
  using pnp_epochs_justified [of e cfg "bundle" "snd acc" "bundle (fst tt) (fst lt)"
      "(fst tt, (snd tt)\<lparr>vTt := []\<rparr>)" lt]
  by (simp add: pnp_tracker_def Let_def)

lemma pnp_trackers_justified:
  "poses_justified e cfg bundle (fst (snd acc)) \<Longrightarrow>
   poses_justified e cfg bundle (fst (snd (foldl (pnp_tracker e cfg bundle lt) acc trs)))"
  by (induction trs arbitrary: acc) (simp_all add: pnp_tracker_justified)

lemma pnp_lighthouse_justified:
  "poses_justified e cfg bundle (fst (snd acc)) \<Longrightarrow>
   poses_justified e cfg bundle (fst (snd (pnp_lighthouse e cfg bundle acc lt)))"
  by (simp add: pnp_lighthouse_def pnp_trackers_justified)

lemma pnp_lighthouses_justified:
  "poses_justified e cfg bundle (fst (snd acc)) \<Longrightarrow>
   poses_justified e cfg bundle (fst (snd (foldl (pnp_lighthouse e cfg bundle) acc lhs)))"
  by (induction lhs arbitrary: acc) (simp_all add: pnp_lighthouse_justified)

lemma pnp_stage_justified:
  "poses_justified e cfg bundle (fst (snd (pnp_stage e cfg bundle lhs trs)))"
  unfolding pnp_stage_def
  by (rule pnp_lighthouses_justified) (simp add: poses_justified_def)

lemma pose_at_justified:
  assumes "pose_at (fst (snd (pnp_stage e cfg bundle lhs trs))) tt t lt = Some p"
  shows "\<exists>lh tr f. (t, f) \<in> set (bundle tt lt) \<and> epoch_pose e cfg lh tr f = Some p"
proof -
  from assms obtain m where "map_of (fst (snd (pnp_stage e cfg bundle lhs trs)) tt) t = Some m"
    and "m lt = Some p"
    by (auto simp: pose_at_def split: option.splits)
  then have "(t, m) \<in> set (fst (snd (pnp_stage e cfg bundle lhs trs)) tt)" "m lt = Some p"
    by (auto dest: map_of_SomeD)
  with pnp_stage_justified [of e cfg "bundle" lhs trs] show ?thesis
    unfolding poses_justified_def by blast
qed

lemma correspondence_Some:
  "correspondence cfg lh tr f s \<noteq> None \<longleftrightarrow> f s 0 \<noteq> [] \<and> f s 1 \<noteq> []"
  by (simp add: correspondence_def Mean_def Let_def)

lemma correspondences_count:
  "length (correspondences cfg lh tr f)
   = length (filter (\<lambda>s. f s 0 \<noteq> [] \<and> f s 1 \<noteq> []) (map of_nat [0..<NUM_SENSORS cfg]))"
proof -
  have "(\<lambda>s. correspondence cfg lh tr f s \<noteq> None) = (\<lambda>s. f s 0 \<noteq> [] \<and> f s 1 \<noteq> [])"
    by (rule ext) (rule correspondence_Some)
  then show ?thesis
    by (simp only: correspondences_def map_filter_def length_map)
qed

lemma epoch_pose_Some:
  "epoch_pose e cfg lh tr f \<noteq> None \<longleftrightarrow>
     4 \<le> length (correspondences cfg lh tr f)
     \<and> solvePnP e (map fst (correspondences cfg lh tr f)) (map snd (correspondences cfg lh tr f))
          principal_distance \<noteq> None"
  by (auto simp: epoch_pose_def Let_def split: option.splits prod.splits)

text \<open>
  C7. A time bin gets a pose exactly when at least four sensors have a mean angle on both
  axes and \<^verbatim>\<open>solvePnP\<close> succeeds; with three such sensors, or when \<^verbatim>\<open>solvePnP\<close>
  fails, the loop goes on with the poses and the count untouched. Every pose that the
  stage leaves for a tracker, a time and a lighthouse was produced in this way from a time
  bin of that tracker and lighthouse.
\<close>

theorem epoch_pose_needs_four:
  "(epoch_pose e cfg lh tr f \<noteq> None \<longleftrightarrow>
      4 \<le> length (filter (\<lambda>s. f s 0 \<noteq> [] \<and> f s 1 \<noteq> []) (map of_nat [0..<NUM_SENSORS cfg]))
      \<and> solvePnP e (map fst (correspondences cfg lh tr f))
           (map snd (correspondences cfg lh tr f)) principal_distance \<noteq> None)
   \<and> (epoch_pose e cfg (snd lt) (snd tt) (snd bt) = None \<longrightarrow> pnp_epoch e cfg lt tt acc bt = acc)
   \<and> (pose_at (fst (snd (pnp_stage e cfg b lhs trs))) tserial t lserial = Some p \<longrightarrow>
        (\<exists>lh' tr' f'. (t, f') \<in> set (b tserial lserial)
           \<and> epoch_pose e cfg lh' tr' f' = Some p))"
proof (intro conjI)
  show "epoch_pose e cfg lh tr f \<noteq> None \<longleftrightarrow>
      4 \<le> length (filter (\<lambda>s. f s 0 \<noteq> [] \<and> f s 1 \<noteq> []) (map of_nat [0..<NUM_SENSORS cfg]))
      \<and> solvePnP e (map fst (correspondences cfg lh tr f))
           (map snd (correspondences cfg lh tr f)) principal_distance \<noteq> None"
    by (simp only: epoch_pose_Some correspondences_count)
  show "epoch_pose e cfg (snd lt) (snd tt) (snd bt) = None \<longrightarrow> pnp_epoch e cfg lt tt acc bt = acc"
    by (simp add: pnp_epoch_def)
  show "pose_at (fst (snd (pnp_stage e cfg b lhs trs))) tserial t lserial = Some p \<longrightarrow>
        (\<exists>lh' tr' f'. (t, f') \<in> set (b tserial lserial)
           \<and> epoch_pose e cfg lh' tr' f' = Some p)"
    using pose_at_justified by blast
qed

lemma three_sensors:
  "length (filter (\<lambda>s. samples3 s 0 \<noteq> [] \<and> samples3 s 1 \<noteq> [])
     (map of_nat [0..<NUM_SENSORS cfg_four])) = 3"
  by (simp add: samples3_def cfg_four_def cfg4_def upt_rec)

lemma stage_pose:
  "pose_at (fst (snd (pnp_stage ext_ok cfg_four
       (bundle_measurements (1 / 10) [(1, lightA0), (1.01, lightA1)])
       [(''A'', lhA)] [(''T'', trT)]))) ''T'' 1 ''A'' = Some [0, 0, 1, 0, 0, 0]"
  by (simp add: pnp_stage_def pnp_lighthouse_def pnp_tracker_def pnp_epoch_def epoch_pose_def
      correspondences_def correspondence_def Mean_def bundle_measurements_def
      bundle_measurement_def bundle_pulse_def push_back_def discretize_def c_round_def
      lightA0_def lightA1_def ext_ok_def cfg_four_def cfg4_def pose_at_def Let_def upt_rec)

theorem epoch_pose_needs_four_witness:
  "length (filter (\<lambda>s. samples3 s 0 \<noteq> [] \<and> samples3 s 1 \<noteq> [])
     (map of_nat [0..<NUM_SENSORS cfg_four])) = 3
   \<and> epoch_pose ext_ok cfg_four lhA trT samples3 = None
   \<and> pnp_epoch ext_ok cfg_four (''A'', lhA) (''T'', trT) ((\<lambda>_. []), 0) (1, samples3)
       = ((\<lambda>_. []), 0)
   \<and> pose_at (fst (snd (pnp_stage ext_ok cfg_four
         (bundle_measurements (1 / 10) [(1, lightA0), (1.01, lightA1)])
         [(''A'', lhA)] [(''T'', trT)]))) ''T'' 1 ''A'' = Some [0, 0, 1, 0, 0, 0]
   \<and> (\<exists>lh' tr' f'.
         (1, f') \<in> set (bundle_measurements (1 / 10) [(1, lightA0), (1.01, lightA1)] ''T'' ''A'')
         \<and> epoch_pose ext_ok cfg_four lh' tr' f' = Some [0, 0, 1, 0, 0, 0])"
proof -
  note inst = epoch_pose_needs_four [where e = ext_ok and cfg = cfg_four and lh = lhA
      and tr = trT and f = samples3 and lt = "(''A'', lhA)" and tt = "(''T'', trT)"
      and bt = "(1, samples3)" and acc = "((\<lambda>_. []), 0)"
      and b = "bundle_measurements (1 / 10) [(1, lightA0), (1.01, lightA1)]"
      and lhs = "[(''A'', lhA)]" and trs = "[(''T'', trT)]" and tserial = "''T''" and t = 1
      and lserial = "''A''" and p = "[0, 0, 1, 0, 0, 0]"]
  have none: "epoch_pose ext_ok cfg_four lhA trT samples3 = None"
    using inst three_sensors by auto
  have skip: "pnp_epoch ext_ok cfg_four (''A'', lhA) (''T'', trT) ((\<lambda>_. []), 0) (1, samples3)
       = ((\<lambda>_. []), 0)"
    using inst none by simp
  have ex: "\<exists>lh' tr' f'.
         (1, f') \<in> set (bundle_measurements (1 / 10) [(1, lightA0), (1.01, lightA1)] ''T'' ''A'')
         \<and> epoch_pose ext_ok cfg_four lh' tr' f' = Some [0, 0, 1, 0, 0, 0]"
    using inst stage_pose by blast
  from three_sensors none skip stage_pose ex show ?thesis by blast
qed

end
